theory Spec2Isabelle
  imports Complex_Main
begin

section \<open>Conventions of the embedding\<close>

text \<open>
  The two scripts modelled here are \<^verbatim>\<open>scripts/quality_gate_enforcer.py\<close> and
  \<^verbatim>\<open>scripts/test_validation_runner.py\<close>.

  \<^item> Python \<^verbatim>\<open>float\<close> values are modelled as \<^typ>\<open>real\<close>: arithmetic is exact, there is no
    rounding and no NaN. Python \<^verbatim>\<open>int\<close> is \<^typ>\<open>int\<close>.
  \<^item> A dictionary read with \<^verbatim>\<open>d.get(k, default)\<close> is a record field of option type, read
    with \<open>dict_get\<close>; a dictionary read with \<^verbatim>\<open>d[k]\<close> raises \<^verbatim>\<open>KeyError\<close>, which is the
    \<open>Inl\<close> branch of a sum.
  \<^item> Wall-clock readings, logging, printing and the human-readable \<^verbatim>\<open>message\<close> of a
    \<^verbatim>\<open>QualityResult\<close> (an f-string rendering of the two numbers the record already holds)
    are left out; an elapsed time that ends up in a result is a parameter.
  \<^item> The fields \<^verbatim>\<open>name\<close>, \<^verbatim>\<open>value\<close>, \<^verbatim>\<open>critical\<close>, \<^verbatim>\<open>description\<close> of \<^verbatim>\<open>QualityThreshold\<close>
    carry the prefix \<open>thr_\<close>.
\<close>

text \<open>
  Exceptions as values. A dictionary subscript raises \<^verbatim>\<open>KeyError\<close>, a division by zero
  raises \<^verbatim>\<open>ZeroDivisionError\<close>, and \<open>Exception\<close> is any other exception, with its text.
  \<open>ConfigError\<close> is the error class the specification names; no code path constructs it.
\<close>

datatype py_error =
    is_KeyError: KeyError string
  | is_ZeroDivisionError: ZeroDivisionError
  | is_Exception: Exception string
  | is_ConfigError: ConfigError string

text \<open>\<^verbatim>\<open>a / b\<close> on numbers.\<close>

definition true_div :: "real \<Rightarrow> real \<Rightarrow> py_error + real" where
  "true_div a b = (if b = 0 then Inl ZeroDivisionError else Inr (a / b))"

text \<open>Sequencing of calls that may raise: the first exception ends the computation.\<close>

definition bind_err :: "'e + 'a \<Rightarrow> ('a \<Rightarrow> 'e + 'b) \<Rightarrow> 'e + 'b" where
  "bind_err m f = (case m of Inl e \<Rightarrow> Inl e | Inr x \<Rightarrow> f x)"

definition dict_get :: "'a option \<Rightarrow> 'a \<Rightarrow> 'a" where
  "dict_get entry dflt = (case entry of None \<Rightarrow> dflt | Some v \<Rightarrow> v)"

text \<open>\<^verbatim>\<open>sub in s\<close> on Python strings: \<open>sub\<close> occurs in \<open>s\<close> as a contiguous block.\<close>

fun starts_with :: "string \<Rightarrow> string \<Rightarrow> bool" where
  "starts_with s [] = True"
| "starts_with [] (c # sub) = False"
| "starts_with (d # s) (c # sub) = (d = c \<and> starts_with s sub)"

fun str_in :: "string \<Rightarrow> string \<Rightarrow> bool" where
  "str_in sub [] = (sub = [])"
| "str_in sub (c # s) = (starts_with (c # s) sub \<or> str_in sub s)"

section \<open>quality\_gate\_enforcer.py\<close>

subsection \<open>Data model\<close>

record QualityThreshold =
  thr_name :: string
  thr_value :: real
  thr_critical :: bool
  thr_description :: string

record QualityResult =
  check_name :: string
  passed :: bool
  actual_value :: "real option"
  threshold_value :: "real option"
  severity :: string

type_synonym registry = "string \<rightharpoonup> QualityThreshold"

definition mk_threshold :: "string \<Rightarrow> real \<Rightarrow> bool \<Rightarrow> string \<Rightarrow> QualityThreshold" where
  "mk_threshold n v c d = \<lparr>thr_name = n, thr_value = v, thr_critical = c, thr_description = d\<rparr>"

definition threshold_table :: "(string \<times> QualityThreshold) list" where
  "threshold_table =
    [(''overall_test_coverage'',
        mk_threshold ''Overall Test Coverage'' 90 True
          ''Minimum overall test coverage percentage''),
     (''critical_path_coverage'',
        mk_threshold ''Critical Path Coverage'' 95 True
          ''Coverage for payment, booking, and security flows''),
     (''service_layer_coverage'',
        mk_threshold ''Service Layer Coverage'' 95 True
          ''Coverage for all service protocol implementations''),
     (''ui_test_coverage'',
        mk_threshold ''UI Test Coverage'' 80 False
          ''UI component test coverage''),
     (''max_test_execution_time'',
        mk_threshold ''Test Execution Time'' 45 True
          ''Maximum total test suite execution time''),
     (''max_individual_test_time'',
        mk_threshold ''Individual Test Time'' 30 False
          ''Maximum individual test execution time''),
     (''performance_regression_threshold'',
        mk_threshold ''Performance Regression'' 10 True
          ''Maximum allowed performance regression''),
     (''memory_leak_threshold'',
        mk_threshold ''Memory Leaks'' 0 True
          ''Maximum allowed memory leaks''),
     (''critical_vulnerabilities'',
        mk_threshold ''Critical Vulnerabilities'' 0 True
          ''Maximum critical security vulnerabilities''),
     (''high_vulnerabilities'',
        mk_threshold ''High Vulnerabilities'' 0 True
          ''Maximum high-severity vulnerabilities''),
     (''medium_vulnerabilities'',
        mk_threshold ''Medium Vulnerabilities'' 2 False
          ''Maximum medium-severity vulnerabilities''),
     (''security_test_coverage'',
        mk_threshold ''Security Test Coverage'' 95 True
          ''Security-specific test coverage''),
     (''test_flaky_rate'',
        mk_threshold ''Test Flaky Rate'' 2 True
          ''Maximum percentage of flaky tests''),
     (''test_failure_rate'',
        mk_threshold ''Test Failure Rate'' 0 True
          ''Maximum test failure rate for non-flaky tests''),
     (''code_quality_score'',
        mk_threshold ''Code Quality Score'' 95 True
          ''Minimum overall code quality score''),
     (''api_response_time'',
        mk_threshold ''API Response Time'' 200 False
          ''Maximum API endpoint response time''),
     (''database_query_time'',
        mk_threshold ''Database Query Time'' 100 False
          ''Maximum database query execution time''),
     (''integration_test_success'',
        mk_threshold ''Integration Test Success'' 100 True
          ''Integration test success rate'')]"

text \<open>\<^verbatim>\<open>_initialize_thresholds\<close>: the dictionary literal (its keys are distinct).\<close>

definition initialize_thresholds :: registry where
  "initialize_thresholds = map_of threshold_table"

text \<open>\<^verbatim>\<open>self.quality_thresholds[key]\<close>: the only lookup the code has is the dictionary
  subscript.\<close>

definition lookup_threshold :: "registry \<Rightarrow> string \<Rightarrow> py_error + QualityThreshold" where
  "lookup_threshold reg key = (case reg key of None \<Rightarrow> Inl (KeyError key) | Some t \<Rightarrow> Inr t)"

text \<open>\<^verbatim>\<open>self.quality_thresholds[key].value = v\<close>, as \<^verbatim>\<open>main\<close> does in strict mode.\<close>

definition set_threshold_value :: "registry \<Rightarrow> string \<Rightarrow> real \<Rightarrow> py_error + registry" where
  "set_threshold_value reg key v =
     (case lookup_threshold reg key of
        Inl e \<Rightarrow> Inl e
      | Inr t \<Rightarrow> Inr (reg(key \<mapsto> t\<lparr>thr_value := v\<rparr>)))"

text \<open>The four assignments of \<^verbatim>\<open>main\<close> under \<^verbatim>\<open>--strict\<close>, in the source's order.\<close>

definition strict_overrides :: "(string \<times> real) list" where
  "strict_overrides =
     [(''overall_test_coverage'', 95), (''critical_path_coverage'', 98),
      (''max_test_execution_time'', 30), (''test_flaky_rate'', 1)]"

fun apply_overrides :: "registry \<Rightarrow> (string \<times> real) list \<Rightarrow> py_error + registry" where
  "apply_overrides reg [] = Inr reg"
| "apply_overrides reg ((key, v) # rest) =
     bind_err (set_threshold_value reg key v) (\<lambda>reg'. apply_overrides reg' rest)"

definition main_thresholds :: "bool \<Rightarrow> py_error + registry" where
  "main_thresholds strict =
     (if strict then apply_overrides initialize_thresholds strict_overrides
      else Inr initialize_thresholds)"

subsection \<open>Validators\<close>

record file_data =
  file_name :: "string option"
  file_lineCoverage :: "real option"

record target_data =
  target_files :: "file_data list option"

record coverage_data =
  lineCoverage :: "real option"
  targets :: "target_data list option"

record slow_test =
  duration_seconds :: "real option"

record performance_data =
  execution_time_minutes :: "real option"
  slow_tests :: "slow_test list option"
  memory_leaks :: "real option"

record vulnerability_counts =
  vuln_critical :: "real option"
  vuln_high :: "real option"
  vuln_medium :: "real option"

record security_data =
  vulnerabilities :: "vulnerability_counts option"
  test_coverage :: "real option"

definition critical_paths :: "string list" where
  "critical_paths =
     [''PaymentService'', ''BookingService'', ''SecurityService'',
      ''AuthenticationService'', ''APIGatewayService'']"

text \<open>The files visited by \<^verbatim>\<open>for target in ...: for file_data in ...\<close>, in visiting order.\<close>

definition all_files :: "coverage_data \<Rightarrow> file_data list" where
  "all_files cd = concat (map (\<lambda>t. dict_get (target_files t) []) (dict_get (targets cd) []))"

text \<open>
  Both file loops of \<^verbatim>\<open>validate_test_coverage\<close> have this body; they differ in the test
  \<open>sel\<close> on the file name. The accumulator is (summed coverage, files found).
\<close>

fun coverage_loop :: "(string \<Rightarrow> bool) \<Rightarrow> file_data list \<Rightarrow> real \<times> int \<Rightarrow> real \<times> int" where
  "coverage_loop sel [] acc = acc"
| "coverage_loop sel (f # fs) (cov, found) =
     (if sel (dict_get (file_name f) [])
      then coverage_loop sel fs (cov + dict_get (file_lineCoverage f) 0 * 100, found + 1)
      else coverage_loop sel fs (cov, found))"

definition is_critical_path :: "string \<Rightarrow> bool" where
  "is_critical_path fname = list_ex (\<lambda>path. str_in path fname) critical_paths"

definition is_service_file :: "string \<Rightarrow> bool" where
  "is_service_file fname = (str_in ''Service.swift'' fname \<and> \<not> str_in ''Mock'' fname)"

definition validate_test_coverage :: "registry \<Rightarrow> coverage_data \<Rightarrow> py_error + QualityResult list" where
  "validate_test_coverage reg cd =
     (let overall_coverage = dict_get (lineCoverage cd) 0 * 100 in
      bind_err (lookup_threshold reg ''overall_test_coverage'') (\<lambda>threshold.
      let results1 =
            [\<lparr>check_name = thr_name threshold,
              passed = (overall_coverage \<ge> thr_value threshold),
              actual_value = Some overall_coverage,
              threshold_value = Some (thr_value threshold),
              severity = (if thr_critical threshold \<and> overall_coverage < thr_value threshold
                          then ''CRITICAL'' else ''INFO'')\<rparr>];
          (critical_path_coverage, critical_files_found) =
            coverage_loop is_critical_path (all_files cd) (0, 0)
      in
      bind_err
        (if critical_files_found > 0
         then bind_err (lookup_threshold reg ''critical_path_coverage'') (\<lambda>threshold.
                let avg_critical_coverage = critical_path_coverage / of_int critical_files_found in
                Inr (results1 @
                  [\<lparr>check_name = thr_name threshold,
                    passed = (avg_critical_coverage \<ge> thr_value threshold),
                    actual_value = Some avg_critical_coverage,
                    threshold_value = Some (thr_value threshold),
                    severity = (if thr_critical threshold \<and> avg_critical_coverage < thr_value threshold
                                then ''CRITICAL'' else ''INFO'')\<rparr>]))
         else Inr results1)
        (\<lambda>results2.
      let (service_coverage, service_files_found) =
            coverage_loop is_service_file (all_files cd) (0, 0)
      in
      if service_files_found > 0
      then bind_err (lookup_threshold reg ''service_layer_coverage'') (\<lambda>threshold.
             let avg_service_coverage = service_coverage / of_int service_files_found in
             Inr (results2 @
               [\<lparr>check_name = thr_name threshold,
                 passed = (avg_service_coverage \<ge> thr_value threshold),
                 actual_value = Some avg_service_coverage,
                 threshold_value = Some (thr_value threshold),
                 severity = (if thr_critical threshold \<and> avg_service_coverage < thr_value threshold
                             then ''CRITICAL'' else ''INFO'')\<rparr>]))
      else Inr results2)))"

definition validate_performance_metrics ::
  "registry \<Rightarrow> performance_data \<Rightarrow> py_error + QualityResult list" where
  "validate_performance_metrics reg pd =
     (let execution_time = dict_get (execution_time_minutes pd) 0 in
      bind_err (lookup_threshold reg ''max_test_execution_time'') (\<lambda>threshold.
      let r1 = \<lparr>check_name = thr_name threshold,
                passed = (execution_time \<le> thr_value threshold),
                actual_value = Some execution_time,
                threshold_value = Some (thr_value threshold),
                severity = (if thr_critical threshold \<and> execution_time > thr_value threshold
                            then ''CRITICAL'' else ''INFO'')\<rparr>;
          slow = dict_get (slow_tests pd) []
      in
      bind_err (lookup_threshold reg ''max_individual_test_time'') (\<lambda>max_individual_time.
      let slow_test_count =
            int (length (filter (\<lambda>t. dict_get (duration_seconds t) 0 > thr_value max_individual_time) slow));
          r2 = \<lparr>check_name = thr_name max_individual_time,
                passed = (slow_test_count = 0),
                actual_value = Some (of_int slow_test_count),
                threshold_value = Some 0,
                severity = (if slow_test_count > 0 then ''WARNING'' else ''INFO'')\<rparr>;
          leaks = dict_get (memory_leaks pd) 0
      in
      bind_err (lookup_threshold reg ''memory_leak_threshold'') (\<lambda>leak_threshold.
      Inr [r1, r2,
           \<lparr>check_name = thr_name leak_threshold,
            passed = (leaks \<le> thr_value leak_threshold),
            actual_value = Some leaks,
            threshold_value = Some (thr_value leak_threshold),
            severity = (if leaks > thr_value leak_threshold then ''CRITICAL'' else ''INFO'')\<rparr>]))))"

definition validate_security_compliance ::
  "registry \<Rightarrow> security_data \<Rightarrow> py_error + QualityResult list" where
  "validate_security_compliance reg sd =
     (let vulns = dict_get (vulnerabilities sd)
                    \<lparr>vuln_critical = None, vuln_high = None, vuln_medium = None\<rparr>;
          critical_vuln = dict_get (vuln_critical vulns) 0
      in
      bind_err (lookup_threshold reg ''critical_vulnerabilities'') (\<lambda>threshold.
      let r1 = \<lparr>check_name = thr_name threshold,
                passed = (critical_vuln \<le> thr_value threshold),
                actual_value = Some critical_vuln,
                threshold_value = Some (thr_value threshold),
                severity = (if critical_vuln > thr_value threshold then ''CRITICAL'' else ''INFO'')\<rparr>;
          high_vuln = dict_get (vuln_high vulns) 0
      in
      bind_err (lookup_threshold reg ''high_vulnerabilities'') (\<lambda>threshold.
      let r2 = \<lparr>check_name = thr_name threshold,
                passed = (high_vuln \<le> thr_value threshold),
                actual_value = Some high_vuln,
                threshold_value = Some (thr_value threshold),
                severity = (if high_vuln > thr_value threshold then ''CRITICAL'' else ''INFO'')\<rparr>;
          medium_vuln = dict_get (vuln_medium vulns) 0
      in
      bind_err (lookup_threshold reg ''medium_vulnerabilities'') (\<lambda>threshold.
      let r3 = \<lparr>check_name = thr_name threshold,
                passed = (medium_vuln \<le> thr_value threshold),
                actual_value = Some medium_vuln,
                threshold_value = Some (thr_value threshold),
                severity = (if medium_vuln > thr_value threshold then ''WARNING'' else ''INFO'')\<rparr>;
          security_coverage = dict_get (test_coverage sd) 0
      in
      bind_err (lookup_threshold reg ''security_test_coverage'') (\<lambda>threshold.
      Inr [r1, r2, r3,
           \<lparr>check_name = thr_name threshold,
            passed = (security_coverage \<ge> thr_value threshold),
            actual_value = Some security_coverage,
            threshold_value = Some (thr_value threshold),
            severity = (if thr_critical threshold \<and> security_coverage < thr_value threshold
                        then ''CRITICAL'' else ''INFO'')\<rparr>])))))"

text \<open>\<^verbatim>\<open>run_security_scan\<close>: the placeholder scan result (the \<^verbatim>\<open>low\<close> count, the timestamp
  and the tool list are never read).\<close>

definition run_security_scan :: security_data where
  "run_security_scan =
     \<lparr>vulnerabilities = Some \<lparr>vuln_critical = Some 0, vuln_high = Some 0, vuln_medium = Some 1\<rparr>,
      test_coverage = Some 96.5\<rparr>"

subsection \<open>Scorer and quality report\<close>

definition severity_weight :: "string \<Rightarrow> real" where
  "severity_weight sev =
     (if sev = ''CRITICAL'' then 3.0 else if sev = ''WARNING'' then 1.0 else 0.5)"

text \<open>The \<^verbatim>\<open>for\<close> loop of \<^verbatim>\<open>calculate_overall_quality_score\<close>; the accumulator is
  (\<^verbatim>\<open>total_score\<close>, \<^verbatim>\<open>total_weight\<close>).\<close>

fun score_loop :: "QualityResult list \<Rightarrow> real \<times> real \<Rightarrow> real \<times> real" where
  "score_loop [] acc = acc"
| "score_loop (result # rest) (total_score, total_weight) =
     (let weight = severity_weight (severity result);
          score = (if passed result then 100.0 else 0.0)
      in score_loop rest (total_score + score * weight, total_weight + weight))"

definition calculate_overall_quality_score :: "QualityResult list \<Rightarrow> real" where
  "calculate_overall_quality_score validation_results =
     (if validation_results = [] then 0.0
      else (let (total_score, total_weight) = score_loop validation_results (0.0, 0.0)
            in if total_weight > 0 then total_score / total_weight else 0.0))"

text \<open>
  The report dictionary of \<^verbatim>\<open>generate_quality_report\<close>: \<^verbatim>\<open>execution_summary\<close>
  (\<open>overall_passed\<close>, \<open>summary_quality_score\<close>), \<^verbatim>\<open>quality_gates\<close> (the four counts) and
  \<^verbatim>\<open>detailed_results\<close> (the three lists). The recommendation and next-step texts are
  left out.
\<close>

record quality_report =
  overall_passed :: bool
  summary_quality_score :: real
  total_checks :: int
  gates_passed :: int
  gates_critical_failures :: int
  gates_warnings :: int
  detail_critical_failures :: "QualityResult list"
  detail_warnings :: "QualityResult list"
  detail_passed :: "QualityResult list"

definition generate_quality_report :: "QualityResult list \<Rightarrow> quality_report" where
  "generate_quality_report validation_results =
     (let critical_failed =
            filter (\<lambda>r. \<not> passed r \<and> severity r = ''CRITICAL'') validation_results;
          warnings = filter (\<lambda>r. \<not> passed r \<and> severity r = ''WARNING'') validation_results;
          passed_results = filter (\<lambda>r. passed r) validation_results;
          quality_score = calculate_overall_quality_score validation_results;
          overall = (int (length critical_failed) = 0)
      in \<lparr>overall_passed = overall,
          summary_quality_score = quality_score,
          total_checks = int (length validation_results),
          gates_passed = int (length passed_results),
          gates_critical_failures = int (length critical_failed),
          gates_warnings = int (length warnings),
          detail_critical_failures = critical_failed,
          detail_warnings = warnings,
          detail_passed = passed_results\<rparr>)"

text \<open>
  \<^verbatim>\<open>run_comprehensive_validation\<close> of the enforcer. The four calls of
  \<^verbatim>\<open>run_xcode_test_with_coverage\<close> are the external executor: each yields a success flag,
  and the unit run also yields the data dictionary, read here through its optional
  \<^verbatim>\<open>coverage\<close> entry and its performance entries. The result is the returned flag and the
  extended \<^verbatim>\<open>validation_results\<close>.
\<close>

definition run_comprehensive_validation ::
  "registry \<Rightarrow> QualityResult list \<Rightarrow> bool \<Rightarrow> coverage_data option \<Rightarrow> performance_data \<Rightarrow>
   bool \<Rightarrow> bool \<Rightarrow> bool \<Rightarrow> py_error + (bool \<times> QualityResult list)" where
  "run_comprehensive_validation reg validation_results unit_success unit_coverage unit_data
     integration_success perf_success security_success =
     bind_err (case unit_coverage of
                 None \<Rightarrow> Inr validation_results
               | Some cd \<Rightarrow> bind_err (validate_test_coverage reg cd)
                              (\<lambda>coverage_results. Inr (validation_results @ coverage_results)))
       (\<lambda>vr1.
     bind_err (validate_performance_metrics reg unit_data) (\<lambda>performance_results.
     let vr2 = vr1 @ performance_results;
         overall_success = (True \<and> unit_success);
         overall_success = (overall_success \<and> integration_success);
         overall_success = (overall_success \<and> perf_success)
     in
     bind_err (validate_security_compliance reg run_security_scan) (\<lambda>security_results.
     let vr3 = vr2 @ security_results;
         overall_success = (overall_success \<and> security_success);
         report = generate_quality_report vr3
     in Inr (overall_success \<and> overall_passed report, vr3))))"

section \<open>test\_validation\_runner.py\<close>

subsection \<open>Data model\<close>

record TestValidationResult =
  test_plan :: string
  success :: bool
  execution_time_seconds :: real
  coverage_percentage :: real
  test_count :: int
  passed_count :: int
  failed_count :: int
  skipped_count :: int
  memory_usage_mb :: real
  cpu_usage_percentage :: real
  errors :: "string list"
  warnings :: "string list"
  quality_score :: real

text \<open>
  \<^verbatim>\<open>self.quality_gate_results\<close>: the empty dictionary of \<^verbatim>\<open>__init__\<close>, the dictionary
  \<^verbatim>\<open>{'error': ...}\<close> of the exception handler of \<^verbatim>\<open>run_quality_gates\<close>, or the report the
  enforcer wrote, read back from its JSON file.
\<close>

datatype gate_results = NoGateResults | GateError string | GateReport quality_report

text \<open>The report fields that depend on the plan results; the clock readings, the
  two placeholder dictionaries and the recommendation texts are left out.\<close>

record ValidationReport =
  overall_success :: bool
  total_tests :: int
  total_passed :: int
  total_failed :: int
  overall_coverage :: real
  overall_quality_score :: real
  test_plan_results :: "TestValidationResult list"
  quality_gate_results :: gate_results

subsection \<open>The external executor\<close>

text \<open>
  How a subprocess ends, as seen by the code that awaits it: it exits with a return
  code, standard output and standard error; or the wait times out
  (\<^verbatim>\<open>asyncio.TimeoutError\<close>); or starting or reading it raises another exception, whose
  \<^verbatim>\<open>str\<close> is kept.
\<close>

datatype proc_outcome = Exited int string string | TimedOut | Raised string

text \<open>\<^verbatim>\<open>build_for_testing\<close>: every exception is caught and turned into \<^verbatim>\<open>False\<close>.\<close>

fun build_for_testing :: "proc_outcome \<Rightarrow> bool" where
  "build_for_testing (Exited returncode out err) = (returncode = 0)"
| "build_for_testing TimedOut = False"
| "build_for_testing (Raised e) = False"

text \<open>The dictionary returned by \<^verbatim>\<open>run_xcode_test_plan\<close>; the keys \<^verbatim>\<open>errors\<close> and
  \<^verbatim>\<open>warnings\<close> are read with \<^verbatim>\<open>get\<close> and may be absent, \<^verbatim>\<open>stdout\<close> likewise.\<close>

record xcode_result =
  res_success :: bool
  res_stdout :: "string option"
  res_stderr :: string
  res_return_code :: int
  res_errors :: "string list option"
  res_warnings :: "string list option"

fun run_xcode_test_plan :: "string \<Rightarrow> proc_outcome \<Rightarrow> xcode_result" where
  "run_xcode_test_plan plan (Exited returncode out err) =
     \<lparr>res_success = (returncode = 0), res_stdout = Some out, res_stderr = err,
      res_return_code = returncode, res_errors = None, res_warnings = None\<rparr>"
| "run_xcode_test_plan plan TimedOut =
     \<lparr>res_success = False, res_stdout = Some [], res_stderr = ''Test execution timed out'',
      res_return_code = 1, res_errors = Some [''Test execution timeout''], res_warnings = None\<rparr>"
| "run_xcode_test_plan plan (Raised e) =
     \<lparr>res_success = False, res_stdout = Some [], res_stderr = e,
      res_return_code = 1, res_errors = Some [e], res_warnings = None\<rparr>"

subsection \<open>Metric extraction and the per-plan quality score\<close>

text \<open>\<^verbatim>\<open>s.count(sub)\<close>: the number of non-overlapping occurrences, scanning from the left.\<close>

fun str_count :: "string \<Rightarrow> string \<Rightarrow> nat" where
  "str_count sub [] = (if sub = [] then 1 else 0)"
| "str_count sub (c # s) =
     (if starts_with (c # s) sub
      then 1 + str_count sub (drop (length sub - 1) s)
      else str_count sub s)"

definition extract_coverage_from_result :: "xcode_result \<Rightarrow> real" where
  "extract_coverage_from_result test_result = (if res_success test_result then 85.5 else 0.0)"

record test_counts =
  tc_total :: int
  tc_passed :: int
  tc_failed :: int
  tc_skipped :: int

definition extract_test_counts_from_result :: "xcode_result \<Rightarrow> test_counts" where
  "extract_test_counts_from_result test_result =
     (let out = dict_get (res_stdout test_result) [];
          n_passed = int (str_count ''Test Case '-['' out) + int (str_count '' passed'' out);
          n_failed = int (str_count ''failed'' out);
          n_skipped = int (str_count ''skipped'' out);
          total = n_passed + n_failed + n_skipped
      in \<lparr>tc_total = (if total > 0 then total else 1),
          tc_passed = n_passed, tc_failed = n_failed, tc_skipped = n_skipped\<rparr>)"

record performance_metrics =
  memory_mb :: real
  cpu_percent :: real

definition extract_performance_metrics :: "xcode_result \<Rightarrow> performance_metrics" where
  "extract_performance_metrics test_result = \<lparr>memory_mb = 125.5, cpu_percent = 35.2\<rparr>"

definition calculate_test_quality_score ::
  "bool \<Rightarrow> real \<Rightarrow> test_counts \<Rightarrow> performance_metrics \<Rightarrow> real" where
  "calculate_test_quality_score ok coverage counts performance =
     (if \<not> ok then 0.0
      else
        (let score = 50.0;
             coverage_score = min 30.0 ((coverage / 90.0) * 30.0);
             score = score + coverage_score;
             score = (if tc_total counts > 0
                      then score + (of_int (tc_passed counts) / of_int (tc_total counts)) * 15.0
                      else score);
             memory_score = max 0 (5.0 - (memory_mb performance / 100.0));
             score = score + min 5.0 memory_score
         in min 100.0 score))"

subsection \<open>Executing one plan\<close>

definition create_failed_result :: "string \<Rightarrow> string list \<Rightarrow> TestValidationResult" where
  "create_failed_result plan errs =
     \<lparr>test_plan = plan, success = False, execution_time_seconds = 0.0,
      coverage_percentage = 0.0, test_count = 0, passed_count = 0, failed_count = 1,
      skipped_count = 0, memory_usage_mb = 0.0, cpu_usage_percentage = 0.0,
      errors = errs, warnings = [], quality_score = 0.0\<rparr>"

text \<open>
  The body of the \<^verbatim>\<open>try\<close> block of \<^verbatim>\<open>execute_test_plan\<close>. The two awaited calls are given
  by what they yield: \<open>Inr\<close> the returned value, \<open>Inl\<close> the text of an exception they
  raise. \<open>elapsed\<close> is the clock difference \<^verbatim>\<open>time.time() - start_time\<close>.
\<close>

definition execute_test_plan_try ::
  "string \<Rightarrow> string + bool \<Rightarrow> string + xcode_result \<Rightarrow> real \<Rightarrow> string + TestValidationResult" where
  "execute_test_plan_try plan build run elapsed =
     bind_err build (\<lambda>build_success.
     if \<not> build_success
     then Inr (create_failed_result plan [''Build failed for '' @ plan])
     else
     bind_err run (\<lambda>test_result.
     let coverage = extract_coverage_from_result test_result;
         counts = extract_test_counts_from_result test_result;
         perf = extract_performance_metrics test_result;
         execution_time = elapsed;
         q = calculate_test_quality_score (res_success test_result) coverage counts perf
     in Inr \<lparr>test_plan = plan, success = res_success test_result,
             execution_time_seconds = execution_time, coverage_percentage = coverage,
             test_count = tc_total counts, passed_count = tc_passed counts,
             failed_count = tc_failed counts, skipped_count = tc_skipped counts,
             memory_usage_mb = memory_mb perf, cpu_usage_percentage = cpu_percent perf,
             errors = dict_get (res_errors test_result) [],
             warnings = dict_get (res_warnings test_result) [],
             quality_score = q\<rparr>))"

text \<open>\<^verbatim>\<open>execute_test_plan\<close>: the \<^verbatim>\<open>except Exception\<close> handler turns a raised exception into
  a failed result, so the function itself always returns.\<close>

definition execute_test_plan ::
  "string \<Rightarrow> string + bool \<Rightarrow> string + xcode_result \<Rightarrow> real \<Rightarrow> TestValidationResult" where
  "execute_test_plan plan build run elapsed =
     (case execute_test_plan_try plan build run elapsed of
        Inr result \<Rightarrow> result
      | Inl e \<Rightarrow>
          create_failed_result plan [''Exception during '' @ plan @ '' execution: '' @ e])"

text \<open>The plan run against the real collaborators: the build subprocess and the test
  subprocess, neither of which lets an exception out.\<close>

definition execute_test_plan_procs ::
  "string \<Rightarrow> proc_outcome \<Rightarrow> proc_outcome \<Rightarrow> real \<Rightarrow> TestValidationResult" where
  "execute_test_plan_procs plan build_proc test_proc elapsed =
     execute_test_plan plan (Inr (build_for_testing build_proc))
       (Inr (run_xcode_test_plan plan test_proc)) elapsed"

subsection \<open>Orchestration\<close>

text \<open>
  \<^verbatim>\<open>asyncio.gather(*tasks, return_exceptions=True)\<close>. Task \<open>i\<close> settles to \<open>settle i\<close>:
  \<open>Inr\<close> its result or \<open>Inl\<close> the exception it raised. The tasks settle in some order
  \<open>completion\<close>; when task \<open>i\<close> settles, its outcome is stored in slot \<open>i\<close> of the
  result list. The awaiting caller gets the list once every slot is filled, and never
  before (\<open>None\<close> stands for an await that does not return).
\<close>

definition gather_slots :: "nat list \<Rightarrow> nat \<Rightarrow> (nat \<Rightarrow> 'a) \<Rightarrow> 'a option list" where
  "gather_slots completion n settle =
     foldl (\<lambda>slots i. if i < n then slots[i := Some (settle i)] else slots)
       (replicate n None) completion"

definition gather :: "nat list \<Rightarrow> nat \<Rightarrow> (nat \<Rightarrow> 'a) \<Rightarrow> 'a list option" where
  "gather completion n settle = those (gather_slots completion n settle)"

text \<open>The result synthesized in \<^verbatim>\<open>run_test_plans_parallel\<close> for a task that raised.\<close>

definition parallel_failed_result :: "string \<Rightarrow> string \<Rightarrow> TestValidationResult" where
  "parallel_failed_result plan e =
     \<lparr>test_plan = plan, success = False, execution_time_seconds = 0.0,
      coverage_percentage = 0.0, test_count = 0, passed_count = 0, failed_count = 0,
      skipped_count = 0, memory_usage_mb = 0.0, cpu_usage_percentage = 0.0,
      errors = [e], warnings = [], quality_score = 0.0\<rparr>"

text \<open>The loop \<^verbatim>\<open>for i, result in enumerate(results)\<close>; \<open>i\<close> is the index of the head of
  the remaining results, and \<^verbatim>\<open>self.test_plans[i]\<close> is in range because there is one task
  per plan.\<close>

fun process_results ::
  "string list \<Rightarrow> nat \<Rightarrow> (string + TestValidationResult) list \<Rightarrow>
   TestValidationResult list \<Rightarrow> TestValidationResult list" where
  "process_results plans i [] test_results = test_results"
| "process_results plans i (result # rest) test_results =
     (case result of
        Inl e \<Rightarrow> process_results plans (Suc i) rest
                   (test_results @ [parallel_failed_result (plans ! i) e])
      | Inr r \<Rightarrow> process_results plans (Suc i) rest (test_results @ [r]))"

text \<open>
  \<^verbatim>\<open>run_test_plans_parallel\<close>: one task per plan, task \<open>i\<close> running plan \<open>plans ! i\<close>. The
  state \<^verbatim>\<open>self.test_results\<close> is passed in and returned extended.
\<close>

definition run_test_plans_parallel ::
  "nat list \<Rightarrow> (nat \<Rightarrow> string + TestValidationResult) \<Rightarrow> string list \<Rightarrow>
   TestValidationResult list \<Rightarrow> TestValidationResult list option" where
  "run_test_plans_parallel completion settle plans test_results =
     (case gather completion (length plans) settle of
        None \<Rightarrow> None
      | Some results \<Rightarrow> Some (process_results plans 0 results test_results))"

text \<open>\<^verbatim>\<open>run_test_plans_sequential\<close>: no handler around the awaited call, so an exception
  of a plan's execution ends the loop and propagates.\<close>

fun run_test_plans_sequential ::
  "(nat \<Rightarrow> string + TestValidationResult) \<Rightarrow> nat \<Rightarrow> string list \<Rightarrow>
   TestValidationResult list \<Rightarrow> string + TestValidationResult list" where
  "run_test_plans_sequential settle i [] test_results = Inr test_results"
| "run_test_plans_sequential settle i (plan # rest) test_results =
     (case settle i of
        Inl e \<Rightarrow> Inl e
      | Inr result \<Rightarrow> run_test_plans_sequential settle (Suc i) rest (test_results @ [result]))"

subsection \<open>Report builder\<close>

definition generate_validation_report ::
  "TestValidationResult list \<Rightarrow> gate_results \<Rightarrow> py_error + ValidationReport" where
  "generate_validation_report test_results gates =
     (let overall = list_all (\<lambda>result. success result) test_results;
          tests = sum_list (map test_count test_results);
          n_passed = sum_list (map passed_count test_results);
          n_failed = sum_list (map failed_count test_results)
      in
      bind_err
        (if test_results \<noteq> []
         then true_div
                (sum_list (map (\<lambda>result. coverage_percentage result * of_int (test_count result))
                             test_results))
                (of_int (max 1 tests))
         else Inr 0.0)
        (\<lambda>coverage.
      bind_err
        (if test_results \<noteq> []
         then true_div (sum_list (map quality_score test_results))
                (of_nat (length test_results))
         else Inr 0.0)
        (\<lambda>quality.
      Inr \<lparr>overall_success = overall, total_tests = tests, total_passed = n_passed,
           total_failed = n_failed, overall_coverage = coverage,
           overall_quality_score = quality, test_plan_results = test_results,
           quality_gate_results = gates\<rparr>)))"

text \<open>
  \<^verbatim>\<open>run_comprehensive_validation\<close> of the runner, from the freshly constructed object
  (\<^verbatim>\<open>test_results = []\<close>): the plans are run in one of the two modes, the gate results are
  whatever \<^verbatim>\<open>run_quality_gates\<close> loaded, and the report is built. \<open>None\<close>: the await does not
  return; \<open>Some (Inl e)\<close>: exception \<open>e\<close> propagates; \<open>Some (Inr report)\<close>: the report.
\<close>

definition runner_comprehensive_validation ::
  "bool \<Rightarrow> nat list \<Rightarrow> (nat \<Rightarrow> string + TestValidationResult) \<Rightarrow> string list \<Rightarrow>
   gate_results \<Rightarrow> (py_error + ValidationReport) option" where
  "runner_comprehensive_validation parallel_execution completion settle plans gates =
     (if parallel_execution
      then (case run_test_plans_parallel completion settle plans [] of
              None \<Rightarrow> None
            | Some test_results \<Rightarrow> Some (generate_validation_report test_results gates))
      else (case run_test_plans_sequential settle 0 plans [] of
              Inl e \<Rightarrow> Some (Inl (Exception e))
            | Inr test_results \<Rightarrow> Some (generate_validation_report test_results gates)))"

definition test_plans :: "string list" where
  "test_plans = [''UnitTestPlan'', ''IntegrationTestPlan'', ''PerformanceTestPlan'', ''SecurityTestPlan'']"

section \<open>Reference definitions from the specification\<close>

text \<open>
  The scorer as the specification words it: a weight per result by severity, and a
  contribution of 100 times the weight for a passed result and nothing otherwise.
\<close>

definition spec_weight :: "QualityResult \<Rightarrow> real" where
  "spec_weight r =
     (if severity r = ''CRITICAL'' then 3.0 else if severity r = ''WARNING'' then 1.0 else 0.5)"

definition spec_contribution :: "QualityResult \<Rightarrow> real" where
  "spec_contribution r = (if passed r then 100.0 * spec_weight r else 0.0)"

text \<open>The severity rule of the data model, as a function of the criticality of the
  threshold and the outcome of the check.\<close>

definition spec_severity :: "bool \<Rightarrow> bool \<Rightarrow> string" where
  "spec_severity is_critical check_passed =
     (if is_critical \<and> \<not> check_passed then ''CRITICAL''
      else if \<not> is_critical \<and> \<not> check_passed then ''WARNING''
      else ''INFO'')"

text \<open>
  A result obeys the rule when some gate of the threshold table, read from the registry in
  use, carries the result's check name and the severity the rule gives for that gate's
  criticality. Check names are distinct in the table (\<open>threshold_names_distinct\<close> below),
  so that gate is the threshold the check was made against.
\<close>

definition severity_invariant :: "registry \<Rightarrow> QualityResult \<Rightarrow> bool" where
  "severity_invariant reg r =
     list_ex (\<lambda>key. case reg key of
                      None \<Rightarrow> False
                    | Some t \<Rightarrow> thr_name t = check_name r \<and>
                                severity r = spec_severity (thr_critical t) (passed r))
       (map fst threshold_table)"

text \<open>
  A registry whose gates have the names and criticality flags of
  \<^verbatim>\<open>_initialize_thresholds\<close>; the numeric values are free. The code assigns to
  \<^verbatim>\<open>.value\<close> only, so every registry it validates against is of this kind.
\<close>

definition gates_as_initialized :: "registry \<Rightarrow> bool" where
  "gates_as_initialized reg =
     list_all (\<lambda>(key, t). case reg key of
                             None \<Rightarrow> False
                           | Some t' \<Rightarrow> thr_name t' = thr_name t \<and> thr_critical t' = thr_critical t)
       threshold_table"

text \<open>What \<^verbatim>\<open>run_test_plans_parallel\<close> is to append for task \<open>i\<close>.\<close>

definition collected ::
  "string list \<Rightarrow> (nat \<Rightarrow> string + TestValidationResult) \<Rightarrow> nat \<Rightarrow> TestValidationResult" where
  "collected plans settle i =
     (case settle i of Inl e \<Rightarrow> parallel_failed_result (plans ! i) e | Inr r \<Rightarrow> r)"

section \<open>Example inputs\<close>

definition failing_warning :: QualityResult where
  "failing_warning =
     \<lparr>check_name = ''Individual Test Time'', passed = False, actual_value = Some 2,
      threshold_value = Some 0, severity = ''WARNING''\<rparr>"

definition passing_check :: QualityResult where
  "passing_check =
     \<lparr>check_name = ''Memory Leaks'', passed = True, actual_value = Some 0,
      threshold_value = Some 0, severity = ''INFO''\<rparr>"

text \<open>A coverage report of 85 percent, below the critical 90 percent gate, and the
  quality report the enforcer builds from validating it.\<close>

definition low_coverage :: coverage_data where
  "low_coverage = \<lparr>lineCoverage = Some 0.85, targets = None\<rparr>"

definition low_coverage_gate_report :: quality_report where
  "low_coverage_gate_report =
     generate_quality_report
       (case validate_test_coverage initialize_thresholds low_coverage of
          Inl e \<Rightarrow> []
        | Inr results \<Rightarrow> results)"

text \<open>The registry of a \<^verbatim>\<open>--strict\<close> run.\<close>

definition strict_registry :: registry where
  "strict_registry = (case main_thresholds True of Inr reg \<Rightarrow> reg | Inl e \<Rightarrow> Map.empty)"

definition sample_coverage :: coverage_data where
  "sample_coverage =
     \<lparr>lineCoverage = Some 0.91,
      targets = Some [\<lparr>target_files = Some
        [\<lparr>file_name = Some ''PaymentService.swift'', file_lineCoverage = Some 0.99\<rparr>,
         \<lparr>file_name = Some ''MockBookingService.swift'', file_lineCoverage = Some 0.5\<rparr>,
         \<lparr>file_name = None, file_lineCoverage = None\<rparr>]\<rparr>]\<rparr>"

definition sample_performance_data :: performance_data where
  "sample_performance_data =
     \<lparr>execution_time_minutes = Some 12,
      slow_tests = Some [\<lparr>duration_seconds = Some 31\<rparr>, \<lparr>duration_seconds = None\<rparr>],
      memory_leaks = None\<rparr>"

definition sample_counts :: test_counts where
  "sample_counts = \<lparr>tc_total = 10, tc_passed = 9, tc_failed = 1, tc_skipped = 0\<rparr>"

definition sample_performance :: performance_metrics where
  "sample_performance = \<lparr>memory_mb = 125.5, cpu_percent = 35.2\<rparr>"

text \<open>A subprocess that exits with code 0 and reports one passed test.\<close>

definition ok_proc :: proc_outcome where
  "ok_proc = Exited 0 '' passed'' []"

definition all_green_results :: "TestValidationResult list" where
  "all_green_results = map (\<lambda>plan. execute_test_plan_procs plan ok_proc ok_proc 12) test_plans"

text \<open>Two plans, the second of which times out.\<close>

definition one_plan_times_out :: "TestValidationResult list" where
  "one_plan_times_out =
     [execute_test_plan_procs ''UnitTestPlan'' ok_proc ok_proc 12,
      execute_test_plan_procs ''IntegrationTestPlan'' ok_proc TimedOut 1800]"

text \<open>Four tasks of which the second raises out of its coroutine.\<close>

definition one_task_raises :: "nat \<Rightarrow> string + TestValidationResult" where
  "one_task_raises i =
     (if i = 1 then Inl ''simulator crashed''
      else Inr (execute_test_plan_procs (test_plans ! i) ok_proc ok_proc 12))"

text \<open>A plan result with a given outcome, test count, coverage and quality score.\<close>

definition scored_result :: "string \<Rightarrow> bool \<Rightarrow> int \<Rightarrow> real \<Rightarrow> real \<Rightarrow> TestValidationResult" where
  "scored_result plan ok n coverage q =
     \<lparr>test_plan = plan, success = ok, execution_time_seconds = 1,
      coverage_percentage = coverage, test_count = n, passed_count = (if ok then n else 0),
      failed_count = (if ok then 0 else n), skipped_count = 0, memory_usage_mb = 125.5,
      cpu_usage_percentage = 35.2, errors = [], warnings = [], quality_score = q\<rparr>"

section \<open>Properties of the quality gate enforcer\<close>

subsection \<open>Overall verdict\<close>

text \<open>
  Claim C1. For every list of validation results, the verdict \<open>overall_passed\<close> computed by
  \<^verbatim>\<open>generate_quality_report\<close> is true exactly when the list holds no result that has
  severity CRITICAL and did not pass. In particular a list of failing WARNING results
  passes overall, whatever its quality score.
\<close>

theorem overall_passed_iff_no_critical_failure:
  "(overall_passed (generate_quality_report rs) \<longleftrightarrow>
      length (filter (\<lambda>r. severity r = ''CRITICAL'' \<and> \<not> passed r) rs) = 0) \<and>
   (overall_passed (generate_quality_report rs) \<longleftrightarrow>
      (\<forall>r \<in> set rs. \<not> (severity r = ''CRITICAL'' \<and> \<not> passed r))) \<and>
   ((\<forall>r \<in> set rs. severity r = ''WARNING'' \<and> \<not> passed r) \<longrightarrow>
      overall_passed (generate_quality_report rs))"
  by (auto simp: generate_quality_report_def Let_def filter_empty_conv)

text \<open>Two failing warnings: the score is 0 and the verdict is a pass.\<close>

theorem overall_passed_iff_no_critical_failure_witness:
  "severity failing_warning = ''WARNING'' \<and> \<not> passed failing_warning \<and>
   overall_passed (generate_quality_report [failing_warning, failing_warning]) \<and>
   summary_quality_score (generate_quality_report [failing_warning, failing_warning]) = 0"
  using overall_passed_iff_no_critical_failure [of "[failing_warning, failing_warning]"]
  by (simp add: failing_warning_def generate_quality_report_def
      calculate_overall_quality_score_def severity_weight_def Let_def)

subsection \<open>Weighted quality score\<close>

lemma spec_weight_pos: "0 < spec_weight r"
  by (simp add: spec_weight_def)

lemma sum_spec_weight_pos: "rs \<noteq> [] \<Longrightarrow> 0 < sum_list (map spec_weight rs)"
proof (induction rs)
  case Nil
  then show ?case by simp
next
  case (Cons r rs)
  have "0 \<le> sum_list (map spec_weight rs)"
    by (rule sum_list_nonneg) (auto simp: less_imp_le spec_weight_pos)
  with spec_weight_pos [of r] show ?case by simp
qed

text \<open>The loop adds the contributions and the weights to its two accumulators.\<close>

lemma score_loop_sums:
  "score_loop rs (ts, tw) =
     (ts + sum_list (map spec_contribution rs), tw + sum_list (map spec_weight rs))"
  by (induction rs arbitrary: ts tw)
     (simp_all add: spec_contribution_def spec_weight_def severity_weight_def Let_def)

text \<open>
  Claim C2. \<^verbatim>\<open>calculate_overall_quality_score\<close> returns the sum of the contributions
  divided by the sum of the weights (weight 3 for CRITICAL, 1 for WARNING, 0.5 otherwise;
  contribution 100 times the weight for a passed result, 0 otherwise), the divisor being
  positive for a non-empty list; for the empty list it returns 0.
\<close>

theorem overall_quality_score_formula:
  "calculate_overall_quality_score [] = 0 \<and>
   (rs \<noteq> [] \<longrightarrow>
      0 < sum_list (map spec_weight rs) \<and>
      calculate_overall_quality_score rs =
        sum_list (map spec_contribution rs) / sum_list (map spec_weight rs))"
  using sum_spec_weight_pos [of rs]
  by (simp add: calculate_overall_quality_score_def score_loop_sums)

text \<open>A failing warning (weight 1) and a passing INFO result (weight 0.5): 50 / 1.5.\<close>

theorem overall_quality_score_formula_witness:
  "[failing_warning, passing_check] \<noteq> [] \<and>
   calculate_overall_quality_score [failing_warning, passing_check] = 100 / 3"
  using overall_quality_score_formula [of "[failing_warning, passing_check]"]
  by (simp add: spec_contribution_def spec_weight_def failing_warning_def passing_check_def)

text \<open>The score stays within 0 and 100, and is 100 when every check passed.\<close>

lemma contribution_le: "spec_contribution r \<le> 100 * spec_weight r"
  by (simp add: spec_contribution_def spec_weight_def)

lemma contribution_nonneg: "0 \<le> spec_contribution r"
  by (simp add: spec_contribution_def spec_weight_def)

lemma sum_contribution_le:
  "sum_list (map spec_contribution rs) \<le> 100 * sum_list (map spec_weight rs)"
proof (induction rs)
  case Nil
  then show ?case by simp
next
  case (Cons r rs)
  with contribution_le [of r] show ?case by (simp add: algebra_simps)
qed

lemma overall_quality_score_bounds:
  "0 \<le> calculate_overall_quality_score rs \<and> calculate_overall_quality_score rs \<le> 100"
proof (cases "rs = []")
  case True
  then show ?thesis by (simp add: calculate_overall_quality_score_def)
next
  case False
  have w: "0 < sum_list (map spec_weight rs)" by (rule sum_spec_weight_pos [OF False])
  have n: "0 \<le> sum_list (map spec_contribution rs)"
    by (rule sum_list_nonneg) (auto simp: contribution_nonneg)
  have eq: "calculate_overall_quality_score rs =
        sum_list (map spec_contribution rs) / sum_list (map spec_weight rs)"
    using False w by (simp add: calculate_overall_quality_score_def score_loop_sums)
  from w n sum_contribution_le [of rs] show ?thesis
    unfolding eq by (simp add: divide_le_eq)
qed

lemma overall_quality_score_all_passed:
  assumes "rs \<noteq> []" and "\<forall>r \<in> set rs. passed r"
  shows "calculate_overall_quality_score rs = 100"
proof -
  have w: "0 < sum_list (map spec_weight rs)" by (rule sum_spec_weight_pos [OF assms(1)])
  from assms(2) have "sum_list (map spec_contribution rs) = 100 * sum_list (map spec_weight rs)"
    by (induction rs) (simp_all add: spec_contribution_def algebra_simps)
  with w assms(1) show ?thesis
    by (simp add: calculate_overall_quality_score_def score_loop_sums)
qed

subsection \<open>Severity of validator results\<close>

lemma threshold_keys_distinct: "distinct (map fst threshold_table)"
  by (simp add: threshold_table_def)

lemma threshold_names_distinct: "distinct (map (\<lambda>(key, t). thr_name t) threshold_table)"
  by (simp add: threshold_table_def mk_threshold_def)

lemma gate_entry:
  assumes "gates_as_initialized reg" and "(key, t) \<in> set threshold_table"
  shows "\<exists>t'. reg key = Some t' \<and> thr_name t' = thr_name t \<and> thr_critical t' = thr_critical t"
  using assms unfolding gates_as_initialized_def list_all_iff
  by (fastforce split: option.splits)

lemma severity_invariantI:
  assumes "(key, t0) \<in> set threshold_table" and "reg key = Some t"
    and "thr_name t = check_name r"
    and "severity r = spec_severity (thr_critical t) (passed r)"
  shows "severity_invariant reg r"
  unfolding severity_invariant_def list_ex_iff
  using assms by (force simp: image_iff)

text \<open>The ten gates the three validators read.\<close>

lemma in_table:
  "(''overall_test_coverage'', mk_threshold ''Overall Test Coverage'' 90 True
      ''Minimum overall test coverage percentage'') \<in> set threshold_table"
  "(''critical_path_coverage'', mk_threshold ''Critical Path Coverage'' 95 True
      ''Coverage for payment, booking, and security flows'') \<in> set threshold_table"
  "(''service_layer_coverage'', mk_threshold ''Service Layer Coverage'' 95 True
      ''Coverage for all service protocol implementations'') \<in> set threshold_table"
  "(''max_test_execution_time'', mk_threshold ''Test Execution Time'' 45 True
      ''Maximum total test suite execution time'') \<in> set threshold_table"
  "(''max_individual_test_time'', mk_threshold ''Individual Test Time'' 30 False
      ''Maximum individual test execution time'') \<in> set threshold_table"
  "(''memory_leak_threshold'', mk_threshold ''Memory Leaks'' 0 True
      ''Maximum allowed memory leaks'') \<in> set threshold_table"
  "(''critical_vulnerabilities'', mk_threshold ''Critical Vulnerabilities'' 0 True
      ''Maximum critical security vulnerabilities'') \<in> set threshold_table"
  "(''high_vulnerabilities'', mk_threshold ''High Vulnerabilities'' 0 True
      ''Maximum high-severity vulnerabilities'') \<in> set threshold_table"
  "(''medium_vulnerabilities'', mk_threshold ''Medium Vulnerabilities'' 2 False
      ''Maximum medium-severity vulnerabilities'') \<in> set threshold_table"
  "(''security_test_coverage'', mk_threshold ''Security Test Coverage'' 95 True
      ''Security-specific test coverage'') \<in> set threshold_table"
  by (simp_all add: threshold_table_def)

lemma security_results_obey_rule:
  assumes g: "gates_as_initialized reg"
  shows "\<exists>rs. validate_security_compliance reg sd = Inr rs \<and> list_all (severity_invariant reg) rs"
proof -
  from gate_entry [OF g in_table(7)] obtain t1 where
    t1: "reg ''critical_vulnerabilities'' = Some t1" "thr_critical t1"
    by (auto simp: mk_threshold_def)
  from gate_entry [OF g in_table(8)] obtain t2 where
    t2: "reg ''high_vulnerabilities'' = Some t2" "thr_critical t2"
    by (auto simp: mk_threshold_def)
  from gate_entry [OF g in_table(9)] obtain t3 where
    t3: "reg ''medium_vulnerabilities'' = Some t3" "\<not> thr_critical t3"
    by (auto simp: mk_threshold_def)
  from gate_entry [OF g in_table(10)] obtain t4 where
    t4: "reg ''security_test_coverage'' = Some t4" "thr_critical t4"
    by (auto simp: mk_threshold_def)
  have inv: "severity_invariant reg r"
    if "(key, t0) \<in> set threshold_table" "reg key = Some t" "thr_name t = check_name r"
       "severity r = spec_severity (thr_critical t) (passed r)" for key t0 t r
    using that by (rule severity_invariantI)
  show ?thesis
    unfolding validate_security_compliance_def Let_def
    by (simp add: lookup_threshold_def bind_err_def t1 t2 t3 t4
        inv [OF in_table(7) t1(1)] inv [OF in_table(8) t2(1)]
        inv [OF in_table(9) t3(1)] inv [OF in_table(10) t4(1)] spec_severity_def not_le)
qed

lemma performance_results_obey_rule:
  assumes g: "gates_as_initialized reg"
  shows "\<exists>rs. validate_performance_metrics reg pd = Inr rs \<and> list_all (severity_invariant reg) rs"
proof -
  from gate_entry [OF g in_table(4)] obtain t1 where
    t1: "reg ''max_test_execution_time'' = Some t1" "thr_critical t1"
    by (auto simp: mk_threshold_def)
  from gate_entry [OF g in_table(5)] obtain t2 where
    t2: "reg ''max_individual_test_time'' = Some t2" "\<not> thr_critical t2"
    by (auto simp: mk_threshold_def)
  from gate_entry [OF g in_table(6)] obtain t3 where
    t3: "reg ''memory_leak_threshold'' = Some t3" "thr_critical t3"
    by (auto simp: mk_threshold_def)
  have inv: "severity_invariant reg r"
    if "(key, t0) \<in> set threshold_table" "reg key = Some t" "thr_name t = check_name r"
       "severity r = spec_severity (thr_critical t) (passed r)" for key t0 t r
    using that by (rule severity_invariantI)
  show ?thesis
    unfolding validate_performance_metrics_def Let_def
    by (simp add: lookup_threshold_def bind_err_def t1 t2 t3
        inv [OF in_table(4) t1(1)] inv [OF in_table(5) t2(1)]
        inv [OF in_table(6) t3(1)] spec_severity_def not_le)
qed

lemma coverage_results_obey_rule:
  assumes g: "gates_as_initialized reg"
  shows "\<exists>rs. validate_test_coverage reg cd = Inr rs \<and> list_all (severity_invariant reg) rs"
proof -
  from gate_entry [OF g in_table(1)] obtain t1 where
    t1: "reg ''overall_test_coverage'' = Some t1" "thr_critical t1"
    by (auto simp: mk_threshold_def)
  from gate_entry [OF g in_table(2)] obtain t2 where
    t2: "reg ''critical_path_coverage'' = Some t2" "thr_critical t2"
    by (auto simp: mk_threshold_def)
  from gate_entry [OF g in_table(3)] obtain t3 where
    t3: "reg ''service_layer_coverage'' = Some t3" "thr_critical t3"
    by (auto simp: mk_threshold_def)
  have inv: "severity_invariant reg r"
    if "(key, t0) \<in> set threshold_table" "reg key = Some t" "thr_name t = check_name r"
       "severity r = spec_severity (thr_critical t) (passed r)" for key t0 t r
    using that by (rule severity_invariantI)
  show ?thesis
    unfolding validate_test_coverage_def Let_def
    by (simp add: lookup_threshold_def bind_err_def t1 t2 t3
        inv [OF in_table(1) t1(1)] inv [OF in_table(2) t2(1)]
        inv [OF in_table(3) t3(1)] spec_severity_def not_le split: prod.splits)
qed

text \<open>
  Claim C4. With a registry whose gates have the criticality flags
  \<^verbatim>\<open>_initialize_thresholds\<close> gives them (the only registries the program builds; the
  threshold values are arbitrary), each of the three validators returns, and every result
  it returns has the severity the rule gives for the threshold its check name belongs to:
  CRITICAL when that threshold is critical and the check failed, WARNING when it is not
  critical and the check failed, INFO when the check passed.
\<close>

theorem validators_severity_invariant:
  assumes "gates_as_initialized reg"
  shows "(\<exists>rs. validate_test_coverage reg cd = Inr rs \<and> list_all (severity_invariant reg) rs) \<and>
         (\<exists>rs. validate_performance_metrics reg pd = Inr rs \<and>
               list_all (severity_invariant reg) rs) \<and>
         (\<exists>rs. validate_security_compliance reg sd = Inr rs \<and>
               list_all (severity_invariant reg) rs)"
  using coverage_results_obey_rule [OF assms] performance_results_obey_rule [OF assms]
    security_results_obey_rule [OF assms]
  by blast

text \<open>The strict-mode registry on sample data: two critical coverage failures and one
  warning for a slow test.\<close>

theorem validators_severity_invariant_witness:
  "gates_as_initialized strict_registry \<and>
   map_sum id (map severity) (validate_test_coverage strict_registry sample_coverage)
     = Inr [''CRITICAL'', ''CRITICAL'', ''INFO''] \<and>
   map_sum id (map severity)
     (validate_performance_metrics strict_registry sample_performance_data)
     = Inr [''INFO'', ''WARNING'', ''INFO''] \<and>
   (\<exists>rs. validate_test_coverage strict_registry sample_coverage = Inr rs \<and>
         list_all (severity_invariant strict_registry) rs) \<and>
   (\<exists>rs. validate_performance_metrics strict_registry sample_performance_data = Inr rs \<and>
         list_all (severity_invariant strict_registry) rs) \<and>
   (\<exists>rs. validate_security_compliance strict_registry run_security_scan = Inr rs \<and>
         list_all (severity_invariant strict_registry) rs)"
proof -
  have g: "gates_as_initialized strict_registry"
    by (simp add: gates_as_initialized_def strict_registry_def main_thresholds_def
        strict_overrides_def set_threshold_value_def lookup_threshold_def bind_err_def
        initialize_thresholds_def threshold_table_def mk_threshold_def)
  have c: "map_sum id (map severity) (validate_test_coverage strict_registry sample_coverage)
     = Inr [''CRITICAL'', ''CRITICAL'', ''INFO'']"
    by (simp add: validate_test_coverage_def strict_registry_def main_thresholds_def
        strict_overrides_def set_threshold_value_def lookup_threshold_def bind_err_def
        initialize_thresholds_def threshold_table_def mk_threshold_def sample_coverage_def
        all_files_def dict_get_def is_critical_path_def is_service_file_def critical_paths_def
        Let_def)
  have p: "map_sum id (map severity)
     (validate_performance_metrics strict_registry sample_performance_data)
     = Inr [''INFO'', ''WARNING'', ''INFO'']"
    by (simp add: validate_performance_metrics_def strict_registry_def main_thresholds_def
        strict_overrides_def set_threshold_value_def lookup_threshold_def bind_err_def
        initialize_thresholds_def threshold_table_def mk_threshold_def
        sample_performance_data_def dict_get_def Let_def)
  from validators_severity_invariant [OF g, of sample_coverage sample_performance_data
      run_security_scan] g c p
  show ?thesis by blast
qed

subsection \<open>Threshold lookup\<close>

lemma registry_known:
  assumes "(key, t) \<in> set threshold_table"
  shows "lookup_threshold initialize_thresholds key = Inr t"
  using assms threshold_keys_distinct
  by (simp add: lookup_threshold_def initialize_thresholds_def)

lemma registry_unknown:
  assumes "key \<notin> set (map fst threshold_table)"
  shows "lookup_threshold initialize_thresholds key = Inl (KeyError key)"
proof -
  from assms have "map_of threshold_table key = None"
    by (simp add: map_of_eq_None_iff)
  then show ?thesis
    by (simp add: lookup_threshold_def initialize_thresholds_def)
qed

lemma set_threshold_value_dom:
  assumes "key \<in> dom reg"
  shows "\<exists>reg'. set_threshold_value reg key v = Inr reg' \<and> dom reg' = dom reg"
  using assms by (auto simp: set_threshold_value_def lookup_threshold_def)

lemma apply_overrides_dom:
  assumes "set (map fst ovs) \<subseteq> dom reg"
  shows "\<exists>reg'. apply_overrides reg ovs = Inr reg' \<and> dom reg' = dom reg"
  using assms
proof (induction ovs arbitrary: reg)
  case Nil
  then show ?case by simp
next
  case (Cons ov ovs)
  obtain key v where ov: "ov = (key, v)" by (cases ov)
  with Cons.prems have "key \<in> dom reg" by simp
  from set_threshold_value_dom [OF this, of v] obtain reg1 where
    r1: "set_threshold_value reg key v = Inr reg1" "dom reg1 = dom reg" by blast
  from Cons.prems r1 have "set (map fst ovs) \<subseteq> dom reg1" by simp
  from Cons.IH [OF this] r1 ov show ?case
    by (simp add: bind_err_def)
qed

lemma strict_keys_known: "set (map fst strict_overrides) \<subseteq> dom initialize_thresholds"
  by (simp add: strict_overrides_def initialize_thresholds_def threshold_table_def
      dom_map_of_conv_image_fst)

text \<open>
  Claim C9, as the code has it. Looking up a key of the threshold table returns that key's
  threshold. Looking up any other name raises \<^verbatim>\<open>KeyError\<close> at the subscript (there is no
  \<^verbatim>\<open>ConfigError\<close> and no check at start-up). The strict-mode assignments of \<^verbatim>\<open>main\<close> only
  use registered names, so they succeed and leave the set of names unchanged.
\<close>

theorem registry_lookup:
  "(\<forall>(key, t) \<in> set threshold_table. lookup_threshold initialize_thresholds key = Inr t) \<and>
   (key \<notin> set (map fst threshold_table) \<longrightarrow>
      lookup_threshold initialize_thresholds key = Inl (KeyError key)) \<and>
   (reg key = None \<longrightarrow> lookup_threshold reg key = Inl (KeyError key)) \<and>
   (\<exists>reg'. main_thresholds strict = Inr reg' \<and> dom reg' = dom initialize_thresholds)"
proof (intro conjI)
  show "\<forall>(key, t) \<in> set threshold_table. lookup_threshold initialize_thresholds key = Inr t"
    using registry_known by blast
  show "key \<notin> set (map fst threshold_table) \<longrightarrow>
      lookup_threshold initialize_thresholds key = Inl (KeyError key)"
    using registry_unknown by blast
  show "reg key = None \<longrightarrow> lookup_threshold reg key = Inl (KeyError key)"
    by (simp add: lookup_threshold_def)
  show "\<exists>reg'. main_thresholds strict = Inr reg' \<and> dom reg' = dom initialize_thresholds"
    using apply_overrides_dom [OF strict_keys_known]
    by (cases strict) (simp_all add: main_thresholds_def)
qed

theorem registry_lookup_witness:
  "''no_such_gate'' \<notin> set (map fst threshold_table) \<and>
   lookup_threshold initialize_thresholds ''no_such_gate'' = Inl (KeyError ''no_such_gate'') \<and>
   lookup_threshold initialize_thresholds ''ui_test_coverage'' =
     Inr (mk_threshold ''UI Test Coverage'' 80 False ''UI component test coverage'')"
proof -
  have k: "''no_such_gate'' \<notin> set (map fst threshold_table)"
    by (simp add: threshold_table_def)
  have m: "(''ui_test_coverage'',
     mk_threshold ''UI Test Coverage'' 80 False ''UI component test coverage'')
       \<in> set threshold_table"
    by (simp add: threshold_table_def)
  from registry_lookup [of "''no_such_gate''" Map.empty True] k m show ?thesis
    by blast
qed

text \<open>An unregistered name makes the lookup fail with \<open>KeyError\<close>, which is not a
  \<open>ConfigError\<close>.\<close>

theorem unknown_threshold_not_ConfigError:
  "lookup_threshold initialize_thresholds ''no_such_gate'' = Inl (KeyError ''no_such_gate'') \<and>
   \<not> is_ConfigError (KeyError ''no_such_gate'')"
  by (simp add: lookup_threshold_def initialize_thresholds_def threshold_table_def)

section \<open>Properties of the test validation runner\<close>

subsection \<open>Per-plan quality score\<close>

text \<open>
  Claim C10. \<^verbatim>\<open>calculate_test_quality_score\<close> returns 0 when \<open>success\<close> is false, whatever
  the other inputs; when \<open>success\<close> is true, the coverage is non-negative and the passed
  count is non-negative, the score lies between 50 and 100. Hence no score is strictly
  between 0 and 50. (The memory and CPU figures and the other counts need no bound.)
\<close>

theorem test_quality_score_range:
  "calculate_test_quality_score False coverage counts performance = 0 \<and>
   (0 \<le> coverage \<and> 0 \<le> tc_passed counts \<longrightarrow>
      50 \<le> calculate_test_quality_score True coverage counts performance \<and>
      calculate_test_quality_score True coverage counts performance \<le> 100) \<and>
   (0 \<le> coverage \<and> 0 \<le> tc_passed counts \<longrightarrow>
      \<not> (0 < calculate_test_quality_score ok coverage counts performance \<and>
         calculate_test_quality_score ok coverage counts performance < 50))"
proof -
  have f: "calculate_test_quality_score False coverage counts performance = 0"
    by (simp add: calculate_test_quality_score_def)
  have t: "50 \<le> calculate_test_quality_score True coverage counts performance \<and>
      calculate_test_quality_score True coverage counts performance \<le> 100"
    if h: "0 \<le> coverage" "0 \<le> tc_passed counts"
  proof -
    have a: "0 \<le> min 30 (coverage / 90 * 30)" using h(1) by simp
    have b: "0 \<le> real_of_int (tc_passed counts) / real_of_int (tc_total counts) * 15"
      if "0 < tc_total counts"
      using h(2) that by simp
    have c: "0 \<le> min 5 (max 0 (5 - memory_mb performance / 100))" by simp
    show ?thesis
      using a b c by (auto simp: calculate_test_quality_score_def Let_def)
  qed
  show ?thesis
    using f t by (cases ok) auto
qed

text \<open>Coverage 45, nine of ten tests passed, 125.5 MB: 50 + 15 + 13.5 + 3.745.\<close>

theorem test_quality_score_range_witness:
  "(0::real) \<le> 45 \<and> 0 \<le> tc_passed sample_counts \<and>
   calculate_test_quality_score True 45 sample_counts sample_performance = 16449 / 200 \<and>
   50 \<le> calculate_test_quality_score True 45 sample_counts sample_performance \<and>
   calculate_test_quality_score True 45 sample_counts sample_performance \<le> 100"
  using test_quality_score_range [of 45 sample_counts sample_performance True]
  by (simp add: calculate_test_quality_score_def sample_counts_def sample_performance_def Let_def)

subsection \<open>Failed plans\<close>

lemma execute_test_plan_names_plan: "test_plan (execute_test_plan plan build run elapsed) = plan"
  by (auto simp: execute_test_plan_def execute_test_plan_try_def bind_err_def
      create_failed_result_def Let_def split: sum.splits)

lemma execute_test_plan_count_nonneg: "0 \<le> test_count (execute_test_plan plan build run elapsed)"
  by (auto simp: execute_test_plan_def execute_test_plan_try_def bind_err_def
      create_failed_result_def extract_test_counts_from_result_def Let_def split: sum.splits)

text \<open>With \<^verbatim>\<open>execute_test_plan\<close> as the task, the sequential loop never sees an exception.\<close>

lemma sequential_all_return:
  "run_test_plans_sequential (\<lambda>i. Inr (f i)) i plans acc
     = Inr (acc @ map f [i..<i + length plans])"
proof (induction plans arbitrary: i acc)
  case Nil
  then show ?case by simp
next
  case (Cons p plans)
  have "[i..<i + length (p # plans)] = i # [Suc i..<Suc i + length plans]"
    by (simp add: upt_rec)
  with Cons.IH [of "Suc i" "acc @ [f i]"] show ?case by simp
qed

text \<open>
  Claim C6, as the code has it. When the build step or the test step raises, or the build
  fails, \<^verbatim>\<open>execute_test_plan\<close> returns \<^verbatim>\<open>create_failed_result\<close> with the message as the error
  list: success false, total, passed and skipped counts 0, quality score 0. When the test
  subprocess times out or cannot be run, \<^verbatim>\<open>run_xcode_test_plan\<close> reports it as an
  unsuccessful run and the result has success false, passed, failed and skipped counts 0,
  quality score 0, the message in the error list, and total count 1 (the guard of
  \<^verbatim>\<open>extract_test_counts_from_result\<close> against a zero total). In every case a result is
  returned rather than an exception.
\<close>

theorem failed_plan_result:
  "((build = Inl e \<or> (build = Inr True \<and> run = Inl e)) \<longrightarrow>
      execute_test_plan plan build run elapsed =
        create_failed_result plan [''Exception during '' @ plan @ '' execution: '' @ e]) \<and>
   (build = Inr False \<longrightarrow>
      execute_test_plan plan build run elapsed =
        create_failed_result plan [''Build failed for '' @ plan]) \<and>
   (\<not> success (create_failed_result plan errs) \<and>
    test_count (create_failed_result plan errs) = 0 \<and>
    passed_count (create_failed_result plan errs) = 0 \<and>
    skipped_count (create_failed_result plan errs) = 0 \<and>
    quality_score (create_failed_result plan errs) = 0 \<and>
    errors (create_failed_result plan errs) = errs) \<and>
   (build_for_testing build_proc \<and> (test_proc = TimedOut \<or> test_proc = Raised e) \<longrightarrow>
      \<not> success (execute_test_plan_procs plan build_proc test_proc elapsed) \<and>
      test_count (execute_test_plan_procs plan build_proc test_proc elapsed) = 1 \<and>
      passed_count (execute_test_plan_procs plan build_proc test_proc elapsed) = 0 \<and>
      failed_count (execute_test_plan_procs plan build_proc test_proc elapsed) = 0 \<and>
      skipped_count (execute_test_plan_procs plan build_proc test_proc elapsed) = 0 \<and>
      quality_score (execute_test_plan_procs plan build_proc test_proc elapsed) = 0 \<and>
      errors (execute_test_plan_procs plan build_proc test_proc elapsed) =
        (if test_proc = TimedOut then [''Test execution timeout''] else [e]))"
  by (auto simp: execute_test_plan_def execute_test_plan_try_def bind_err_def
      create_failed_result_def execute_test_plan_procs_def
      extract_test_counts_from_result_def extract_coverage_from_result_def
      extract_performance_metrics_def calculate_test_quality_score_def dict_get_def Let_def)

theorem failed_plan_result_witness:
  "build_for_testing (Exited 0 [] []) \<and>
   \<not> success (execute_test_plan_procs ''SecurityTestPlan'' (Exited 0 [] []) TimedOut 1800) \<and>
   errors (execute_test_plan_procs ''SecurityTestPlan'' (Exited 0 [] []) TimedOut 1800)
     = [''Test execution timeout''] \<and>
   execute_test_plan ''SecurityTestPlan'' (Inr False) (Inl ''unused'') 2
     = create_failed_result ''SecurityTestPlan'' [''Build failed for SecurityTestPlan''] \<and>
   execute_test_plan ''SecurityTestPlan'' (Inr True) (Inl ''no simulator'') 1800
     = create_failed_result ''SecurityTestPlan''
         [''Exception during SecurityTestPlan execution: no simulator'']"
  using failed_plan_result [where build = "Inr False" and e = "''unused''"
      and run = "Inl ''unused''" and plan = "''SecurityTestPlan''" and elapsed = 2
      and build_proc = "Exited 0 [] []" and test_proc = TimedOut]
    failed_plan_result [where build = "Inr True" and e = "''no simulator''"
      and run = "Inl ''no simulator''" and plan = "''SecurityTestPlan''" and elapsed = 1800
      and build_proc = "Exited 0 [] []" and test_proc = TimedOut]
  by simp

text \<open>A timed-out plan has total count 1, and a plan whose build failed has failed
  count 1: the counts of a failed plan are not all zero.\<close>

theorem failed_plan_counts_not_all_zero:
  "\<not> (test_count (execute_test_plan_procs ''UnitTestPlan'' (Exited 0 [] []) TimedOut 1800) = 0 \<and>
      passed_count (execute_test_plan_procs ''UnitTestPlan'' (Exited 0 [] []) TimedOut 1800) = 0 \<and>
      failed_count (execute_test_plan_procs ''UnitTestPlan'' (Exited 0 [] []) TimedOut 1800) = 0 \<and>
      skipped_count (execute_test_plan_procs ''UnitTestPlan'' (Exited 0 [] []) TimedOut 1800) = 0) \<and>
   failed_count (execute_test_plan_procs ''UnitTestPlan'' (Exited 65 [] ''build error'')
                   (Exited 0 [] []) 3) = 1"
  by (simp add: execute_test_plan_def execute_test_plan_try_def bind_err_def
      create_failed_result_def execute_test_plan_procs_def
      extract_test_counts_from_result_def extract_coverage_from_result_def
      extract_performance_metrics_def calculate_test_quality_score_def dict_get_def Let_def)

subsection \<open>Concurrent orchestration\<close>

lemma fill_length:
  "length (foldl (\<lambda>slots i. if i < n then slots[i := Some (settle i)] else slots) slots0 completion)
     = length slots0"
  by (induction completion arbitrary: slots0) simp_all

lemma fill_nth:
  assumes "j < length slots0" and "length slots0 = n"
  shows "foldl (\<lambda>slots i. if i < n then slots[i := Some (settle i)] else slots) slots0 completion ! j
     = (if j \<in> set completion then Some (settle j) else slots0 ! j)"
  using assms
proof (induction completion arbitrary: slots0)
  case Nil
  then show ?case by simp
next
  case (Cons i completion)
  let ?s1 = "if i < n then slots0[i := Some (settle i)] else slots0"
  have len: "length ?s1 = n" "j < length ?s1" using Cons.prems by simp_all
  from Cons.IH [OF len(2) len(1)] Cons.prems show ?case
    by (auto simp: nth_list_update)
qed

lemma gather_slots_all:
  assumes "{0..<n} \<subseteq> set completion"
  shows "gather_slots completion n settle = map (\<lambda>i. Some (settle i)) [0..<n]"
proof (rule nth_equalityI)
  show "length (gather_slots completion n settle) = length (map (\<lambda>i. Some (settle i)) [0..<n])"
    by (simp add: gather_slots_def fill_length)
next
  fix j assume "j < length (gather_slots completion n settle)"
  then have j: "j < n" by (simp add: gather_slots_def fill_length)
  with assms have "j \<in> set completion" by auto
  with j show "gather_slots completion n settle ! j = map (\<lambda>i. Some (settle i)) [0..<n] ! j"
    by (simp add: gather_slots_def fill_nth)
qed

lemma those_map_Some: "those (map (\<lambda>x. Some (f x)) xs) = Some (map f xs)"
  by (induction xs) simp_all

text \<open>Once every task has settled, the gathered list is in task order.\<close>

lemma gather_all:
  assumes "{0..<n} \<subseteq> set completion"
  shows "gather completion n settle = Some (map settle [0..<n])"
  by (simp add: gather_def gather_slots_all [OF assms] those_map_Some)

lemma process_results_map:
  "process_results plans i (map settle [i..<i + k]) acc
     = acc @ map (collected plans settle) [i..<i + k]"
proof (induction k arbitrary: i acc)
  case 0
  then show ?case by simp
next
  case (Suc k)
  have split: "[i..<i + Suc k] = i # [Suc i..<Suc i + k]"
    by (simp add: upt_rec)
  show ?case
    unfolding split using Suc.IH [of "Suc i"]
    by (cases "settle i") (simp_all add: collected_def)
qed

lemma parallel_collects:
  assumes "{0..<length plans} \<subseteq> set completion"
  shows "run_test_plans_parallel completion settle plans test_results
           = Some (test_results @ map (collected plans settle) [0..<length plans])"
  using process_results_map [of plans 0 settle "length plans" test_results]
  by (simp add: run_test_plans_parallel_def gather_all [OF assms])

text \<open>
  Claim C3. Whatever the order in which the tasks complete (\<open>completion\<close> is any
  permutation of the task indices), \<^verbatim>\<open>run_test_plans_parallel\<close> returns, and appends
  exactly one result per requested plan, in request order. Position \<open>i\<close> holds the result
  of task \<open>i\<close> unchanged when the task returned; when the task raised \<open>e\<close>, it holds a
  synthesized failed result: named after plan \<open>i\<close>, success false, every count, the
  coverage and the quality score 0, and \<open>e\<close> as its only error. A raising task
  therefore changes no other position.
\<close>

theorem parallel_results_in_request_order:
  assumes "distinct completion" and "set completion = {0..<length plans}"
  shows "\<exists>results.
           run_test_plans_parallel completion settle plans test_results
             = Some (test_results @ results) \<and>
           length results = length plans \<and>
           (\<forall>i < length plans.
              case settle i of
                Inr r \<Rightarrow> results ! i = r
              | Inl e \<Rightarrow>
                  test_plan (results ! i) = plans ! i \<and>
                  success (results ! i) = False \<and>
                  errors (results ! i) = [e] \<and>
                  warnings (results ! i) = [] \<and>
                  test_count (results ! i) = 0 \<and>
                  passed_count (results ! i) = 0 \<and>
                  failed_count (results ! i) = 0 \<and>
                  skipped_count (results ! i) = 0 \<and>
                  coverage_percentage (results ! i) = 0 \<and>
                  execution_time_seconds (results ! i) = 0 \<and>
                  memory_usage_mb (results ! i) = 0 \<and>
                  cpu_usage_percentage (results ! i) = 0 \<and>
                  quality_score (results ! i) = 0)"
proof -
  from assms(2) have "{0..<length plans} \<subseteq> set completion" by simp
  from parallel_collects [OF this, of settle test_results] show ?thesis
    by (simp add: collected_def parallel_failed_result_def split: sum.splits)
qed

text \<open>Four plans completing in the order 2, 0, 3, 1, the second one raising: four
  results, three with real data, one synthesized failure in second place.\<close>

theorem parallel_results_in_request_order_witness:
  "distinct [2, 0, 3, 1::nat] \<and> set [2, 0, 3, 1::nat] = {0..<length test_plans} \<and>
   (\<exists>results.
      run_test_plans_parallel [2, 0, 3, 1] one_task_raises test_plans [] = Some results \<and>
      length results = 4 \<and>
      test_plan (results ! 1) = ''IntegrationTestPlan'' \<and>
      success (results ! 1) = False \<and>
      errors (results ! 1) = [''simulator crashed''] \<and>
      test_count (results ! 1) = 0 \<and>
      failed_count (results ! 1) = 0 \<and>
      results ! 0 = execute_test_plan_procs ''UnitTestPlan'' ok_proc ok_proc 12 \<and>
      results ! 2 = execute_test_plan_procs ''PerformanceTestPlan'' ok_proc ok_proc 12 \<and>
      results ! 3 = execute_test_plan_procs ''SecurityTestPlan'' ok_proc ok_proc 12)"
proof -
  have d: "distinct [2, 0, 3, 1::nat]" by simp
  have s: "set [2, 0, 3, 1::nat] = {0..<length test_plans}"
    by (auto simp: test_plans_def)
  from parallel_results_in_request_order [OF d s, of one_task_raises "[]"]
  obtain results where
    r: "run_test_plans_parallel [2, 0, 3, 1] one_task_raises test_plans [] = Some results"
       "length results = length test_plans"
       "\<forall>i < length test_plans.
          case one_task_raises i of
            Inr r \<Rightarrow> results ! i = r
          | Inl e \<Rightarrow>
              test_plan (results ! i) = test_plans ! i \<and>
              success (results ! i) = False \<and>
              errors (results ! i) = [e] \<and>
              warnings (results ! i) = [] \<and>
              test_count (results ! i) = 0 \<and>
              passed_count (results ! i) = 0 \<and>
              failed_count (results ! i) = 0 \<and>
              skipped_count (results ! i) = 0 \<and>
              coverage_percentage (results ! i) = 0 \<and>
              execution_time_seconds (results ! i) = 0 \<and>
              memory_usage_mb (results ! i) = 0 \<and>
              cpu_usage_percentage (results ! i) = 0 \<and>
              quality_score (results ! i) = 0"
    by auto
  have l: "length test_plans = 4" by (simp add: test_plans_def)
  have i0: "(0::nat) < 4" and i1: "(1::nat) < 4" and i2: "(2::nat) < 4" and i3: "(3::nat) < 4"
    by simp_all
  from r(3) [unfolded l, rule_format, OF i0]
  have r0: "results ! 0 = execute_test_plan_procs ''UnitTestPlan'' ok_proc ok_proc 12"
    by (simp add: one_task_raises_def test_plans_def)
  from r(3) [unfolded l, rule_format, OF i1]
  have r1: "test_plan (results ! 1) = ''IntegrationTestPlan''" "success (results ! 1) = False"
    "errors (results ! 1) = [''simulator crashed'']" "test_count (results ! 1) = 0"
    "failed_count (results ! 1) = 0"
    by (simp_all add: one_task_raises_def test_plans_def)
  from r(3) [unfolded l, rule_format, OF i2]
  have r2: "results ! 2 = execute_test_plan_procs ''PerformanceTestPlan'' ok_proc ok_proc 12"
    by (simp add: one_task_raises_def test_plans_def)
  from r(3) [unfolded l, rule_format, OF i3]
  have r3: "results ! 3 = execute_test_plan_procs ''SecurityTestPlan'' ok_proc ok_proc 12"
    by (simp add: one_task_raises_def test_plans_def)
  from d s r(1,2) l r0 r1 r2 r3 show ?thesis by simp
qed

subsection \<open>Report aggregates\<close>

text \<open>Neither division of \<^verbatim>\<open>generate_validation_report\<close> can fault, so the report is
  always built; its fields in closed form.\<close>

lemma report_Inr:
  "generate_validation_report rs g =
     Inr \<lparr>overall_success = list_all success rs,
          total_tests = sum_list (map test_count rs),
          total_passed = sum_list (map passed_count rs),
          total_failed = sum_list (map failed_count rs),
          overall_coverage =
            (if rs \<noteq> []
             then sum_list (map (\<lambda>r. coverage_percentage r * of_int (test_count r)) rs)
                  / of_int (max 1 (sum_list (map test_count rs)))
             else 0),
          overall_quality_score =
            (if rs \<noteq> [] then sum_list (map quality_score rs) / of_nat (length rs) else 0),
          test_plan_results = rs,
          quality_gate_results = g\<rparr>"
proof -
  have "real_of_int (max 1 (sum_list (map test_count rs))) \<noteq> 0"
    by simp
  moreover have "rs \<noteq> [] \<Longrightarrow> real (length rs) \<noteq> 0" by simp
  ultimately show ?thesis
    unfolding generate_validation_report_def Let_def true_div_def bind_err_def
    by (cases "rs = []") (simp_all del: of_int_max)
qed

text \<open>
  With \<^verbatim>\<open>execute_test_plan\<close> as every task, the whole validation run ends with a report
  in both modes, and the report lists one result per plan in request order.
\<close>

lemma runner_always_reports:
  assumes "distinct completion" and "set completion = {0..<length plans}"
    and "settle = (\<lambda>i. Inr (execute_test_plan (plans ! i) (builds i) (runs i) (elapsed i)))"
  shows "\<exists>rep. runner_comprehensive_validation parallel_execution completion settle plans gates
                 = Some (Inr rep) \<and>
               test_plan_results rep =
                 map (\<lambda>i. execute_test_plan (plans ! i) (builds i) (runs i) (elapsed i))
                   [0..<length plans]"
proof (cases parallel_execution)
  case True
  from assms(2) have "{0..<length plans} \<subseteq> set completion" by simp
  from parallel_collects [OF this, of settle "[]"] True show ?thesis
    by (simp add: runner_comprehensive_validation_def report_Inr assms(3) collected_def)
next
  case False
  then show ?thesis
    using sequential_all_return
      [of "\<lambda>i. execute_test_plan (plans ! i) (builds i) (runs i) (elapsed i)" 0 plans "[]"]
    by (simp add: runner_comprehensive_validation_def report_Inr assms(3))
qed

lemma counts_all_zero:
  assumes "\<forall>r \<in> set rs. 0 \<le> test_count r" and "sum_list (map test_count rs) = 0"
  shows "\<forall>r \<in> set rs. test_count r = 0"
  using assms
proof (induction rs)
  case Nil
  then show ?case by simp
next
  case (Cons r rs)
  have "0 \<le> sum_list (map test_count rs)"
    using Cons.prems(1) by (intro sum_list_nonneg) auto
  with Cons.prems have "test_count r = 0" "sum_list (map test_count rs) = 0"
    by simp_all
  with Cons.IH Cons.prems(1) show ?case by simp
qed

lemma weighted_sum_zero:
  assumes "\<forall>r \<in> set rs. 0 \<le> test_count r" and "sum_list (map test_count rs) = 0"
  shows "sum_list (map (\<lambda>r. coverage_percentage r * of_int (test_count r)) rs) = (0::real)"
proof -
  from counts_all_zero [OF assms] have "\<forall>r \<in> set rs. test_count r = 0" .
  then show ?thesis
    by (induction rs) simp_all
qed

text \<open>
  Claim C7. For every list of plan results \<^verbatim>\<open>generate_validation_report\<close> builds a report
  (no division fault). Its \<open>overall_coverage\<close> is 0 for the empty list; and, test counts
  being non-negative (as they are in every result the runner constructs,
  \<open>execute_test_plan_count_nonneg\<close>), it is 0 when the total test count is zero and
  otherwise the coverage percentages averaged with the test counts as weights.
\<close>

theorem overall_coverage_weighted_average:
  "\<exists>rep. generate_validation_report rs g = Inr rep \<and>
     (rs = [] \<longrightarrow> overall_coverage rep = 0) \<and>
     ((\<forall>r \<in> set rs. 0 \<le> test_count r) \<longrightarrow>
        (sum_list (map test_count rs) = 0 \<longrightarrow> overall_coverage rep = 0) \<and>
        (0 < sum_list (map test_count rs) \<longrightarrow>
           overall_coverage rep =
             sum_list (map (\<lambda>r. coverage_percentage r * of_int (test_count r)) rs)
             / of_int (sum_list (map test_count rs))))"
  unfolding report_Inr
  using weighted_sum_zero [of rs]
  by (auto simp: max_def)

text \<open>No plans; two failed plans with no tests; three tests at 90 and one at 50.\<close>

theorem overall_coverage_weighted_average_witness:
  "map_sum id overall_coverage (generate_validation_report [] NoGateResults) = Inr 0 \<and>
   map_sum id overall_coverage
     (generate_validation_report
        [create_failed_result ''UnitTestPlan'' [''Build failed for UnitTestPlan''],
         parallel_failed_result ''SecurityTestPlan'' ''simulator crashed''] NoGateResults) = Inr 0 \<and>
   map_sum id overall_coverage
     (generate_validation_report
        [scored_result ''UnitTestPlan'' True 3 90 100,
         scored_result ''SecurityTestPlan'' True 1 50 80] NoGateResults) = Inr 80"
proof -
  let ?zero = "[create_failed_result ''UnitTestPlan'' [''Build failed for UnitTestPlan''],
         parallel_failed_result ''SecurityTestPlan'' ''simulator crashed'']"
  let ?some = "[scored_result ''UnitTestPlan'' True 3 90 100,
         scored_result ''SecurityTestPlan'' True 1 50 80]"
  have z: "\<forall>r \<in> set ?zero. 0 \<le> test_count r" "sum_list (map test_count ?zero) = 0"
    by (simp_all add: create_failed_result_def parallel_failed_result_def)
  have p: "\<forall>r \<in> set ?some. 0 \<le> test_count r" "0 < sum_list (map test_count ?some)"
    "sum_list (map (\<lambda>r. coverage_percentage r * of_int (test_count r)) ?some)
       / of_int (sum_list (map test_count ?some)) = (80::real)"
    by (simp_all add: scored_result_def)
  from overall_coverage_weighted_average [of "[]" NoGateResults]
  have 1: "map_sum id overall_coverage (generate_validation_report [] NoGateResults) = Inr 0"
    by auto
  from overall_coverage_weighted_average [of ?zero NoGateResults] z
  have 2: "map_sum id overall_coverage (generate_validation_report ?zero NoGateResults) = Inr 0"
    by auto
  from overall_coverage_weighted_average [of ?some NoGateResults] p
  have 3: "map_sum id overall_coverage (generate_validation_report ?some NoGateResults) = Inr 80"
    by auto
  from 1 2 3 show ?thesis by simp
qed

text \<open>
  Claim C8. For every non-empty list of plan results the report's
  \<open>overall_quality_score\<close> is the plain arithmetic mean of the plans' quality scores. Three
  successful plans scoring 100 and one failed plan scoring 0 give 75 and an overall
  failure.
\<close>

theorem overall_quality_score_is_mean:
  "(rs \<noteq> [] \<longrightarrow>
      (\<exists>rep. generate_validation_report rs g = Inr rep \<and>
         overall_quality_score rep = sum_list (map quality_score rs) / of_nat (length rs))) \<and>
   (success a \<and> success b \<and> success c \<and> \<not> success d \<and>
    quality_score a = 100 \<and> quality_score b = 100 \<and> quality_score c = 100 \<and>
    quality_score d = 0 \<longrightarrow>
      (\<exists>rep. generate_validation_report [a, b, c, d] g = Inr rep \<and>
         overall_quality_score rep = 75 \<and> overall_success rep = False))"
  by (simp add: report_Inr)

theorem overall_quality_score_is_mean_witness:
  "map_sum id overall_quality_score
     (generate_validation_report
        [scored_result ''UnitTestPlan'' True 40 90 100,
         scored_result ''IntegrationTestPlan'' True 5 90 100,
         scored_result ''PerformanceTestPlan'' True 1 90 100,
         scored_result ''SecurityTestPlan'' False 0 0 0] NoGateResults) = Inr 75 \<and>
   map_sum id overall_success
     (generate_validation_report
        [scored_result ''UnitTestPlan'' True 40 90 100,
         scored_result ''IntegrationTestPlan'' True 5 90 100,
         scored_result ''PerformanceTestPlan'' True 1 90 100,
         scored_result ''SecurityTestPlan'' False 0 0 0] NoGateResults) = Inr False"
proof -
  let ?a = "scored_result ''UnitTestPlan'' True 40 90 100"
  let ?b = "scored_result ''IntegrationTestPlan'' True 5 90 100"
  let ?c = "scored_result ''PerformanceTestPlan'' True 1 90 100"
  let ?d = "scored_result ''SecurityTestPlan'' False 0 0 0"
  have h: "success ?a \<and> success ?b \<and> success ?c \<and> \<not> success ?d \<and>
    quality_score ?a = 100 \<and> quality_score ?b = 100 \<and> quality_score ?c = 100 \<and>
    quality_score ?d = 0"
    by (simp add: scored_result_def)
  from overall_quality_score_is_mean [of "[?a, ?b, ?c, ?d]" NoGateResults ?a ?b ?c ?d] h
  obtain rep where "generate_validation_report [?a, ?b, ?c, ?d] NoGateResults = Inr rep"
    "overall_quality_score rep = 75" "overall_success rep = False"
    by blast
  then show ?thesis by simp
qed

subsection \<open>Overall success and the quality gates\<close>

text \<open>The enforcer's own \<^verbatim>\<open>run_comprehensive_validation\<close> returns the conjunction of the
  four plan outcomes and the absence of critical gate failures.\<close>

lemma enforcer_combines_plans_and_gates:
  assumes "run_comprehensive_validation reg vrs unit_success unit_coverage unit_data
             integration_success perf_success security_success = Inr (flag, vrs')"
  shows "flag = (unit_success \<and> integration_success \<and> perf_success \<and> security_success \<and>
                 (\<forall>r \<in> set vrs'. \<not> (severity r = ''CRITICAL'' \<and> \<not> passed r)))"
  using assms
  unfolding run_comprehensive_validation_def bind_err_def Let_def
  by (auto simp: generate_quality_report_def Let_def filter_empty_conv
      split: sum.splits option.splits)

text \<open>
  Claim C5, as the code has it. For every list of plan results and every quality-gate
  result set, \<^verbatim>\<open>generate_validation_report\<close> builds a report whose \<open>overall_success\<close> is
  the conjunction of the plans' success flags. The gate results are stored in the report
  and have no influence on \<open>overall_success\<close>.
\<close>

theorem overall_success_is_all_plans_succeed:
  "(\<exists>rep. generate_validation_report rs gates = Inr rep \<and>
      (overall_success rep \<longleftrightarrow> (\<forall>r \<in> set rs. success r)) \<and>
      quality_gate_results rep = gates) \<and>
   map_sum id overall_success (generate_validation_report rs gates)
     = map_sum id overall_success (generate_validation_report rs gates')"
  by (simp add: report_Inr list_all_iff)

text \<open>One plan timing out fails the run, whatever the gates say; four successful plans
  pass it.\<close>

theorem overall_success_is_all_plans_succeed_witness:
  "map_sum id overall_success
     (generate_validation_report one_plan_times_out (GateReport low_coverage_gate_report))
     = Inr False \<and>
   map_sum id overall_success (generate_validation_report all_green_results NoGateResults)
     = Inr True"
proof -
  have f: "\<not> (\<forall>r \<in> set one_plan_times_out. success r)"
    by (simp add: one_plan_times_out_def execute_test_plan_procs_def execute_test_plan_def
        execute_test_plan_try_def bind_err_def ok_proc_def Let_def)
  have t: "\<forall>r \<in> set all_green_results. success r"
    by (simp add: all_green_results_def test_plans_def execute_test_plan_procs_def
        execute_test_plan_def execute_test_plan_try_def bind_err_def ok_proc_def Let_def)
  from overall_success_is_all_plans_succeed
    [of one_plan_times_out "GateReport low_coverage_gate_report" NoGateResults] f
  have 1: "map_sum id overall_success
     (generate_validation_report one_plan_times_out (GateReport low_coverage_gate_report))
     = Inr False"
    by auto
  from overall_success_is_all_plans_succeed [of all_green_results NoGateResults NoGateResults] t
  have 2: "map_sum id overall_success
     (generate_validation_report all_green_results NoGateResults) = Inr True"
    by auto
  from 1 2 show ?thesis by simp
qed

text \<open>Every plan succeeded and the gate report holds a critical failure (coverage of 85
  percent against the critical 90 percent gate), yet \<open>overall_success\<close> is true.\<close>

theorem critical_gate_failure_leaves_overall_success:
  "list_all success all_green_results \<and>
   gates_critical_failures low_coverage_gate_report = 1 \<and>
   overall_passed low_coverage_gate_report = False \<and>
   map_sum id overall_success
     (generate_validation_report all_green_results (GateReport low_coverage_gate_report))
     = Inr True"
proof -
  have g: "list_all success all_green_results"
    by (simp add: all_green_results_def test_plans_def execute_test_plan_procs_def
        execute_test_plan_def execute_test_plan_try_def bind_err_def ok_proc_def Let_def)
  have v: "validate_test_coverage initialize_thresholds low_coverage =
             Inr [\<lparr>check_name = ''Overall Test Coverage'', passed = False,
                   actual_value = Some 85, threshold_value = Some 90,
                   severity = ''CRITICAL''\<rparr>]"
    by (simp add: validate_test_coverage_def low_coverage_def lookup_threshold_def
        initialize_thresholds_def threshold_table_def mk_threshold_def bind_err_def
        all_files_def dict_get_def Let_def)
  have c: "gates_critical_failures low_coverage_gate_report = 1"
    "overall_passed low_coverage_gate_report = False"
    by (simp_all add: low_coverage_gate_report_def v generate_quality_report_def Let_def)
  from g have "map_sum id overall_success
     (generate_validation_report all_green_results (GateReport low_coverage_gate_report))
     = Inr True"
    by (simp add: report_Inr)
  with g c show ?thesis by simp
qed

end
